theory Spec2Isabelle
  imports Main
begin

section \<open>JavaScript values seen by the theme validator\<close>

text \<open>
  The validators of \<^verbatim>\<open>src/test/helpers/theme-validator.ts\<close> receive the result of
  \<^verbatim>\<open>JSON.parse\<close> (or an object literal written in a test) typed \<^verbatim>\<open>unknown\<close> or cast to
  \<^verbatim>\<open>ThemeData\<close>. The values are modelled as they exist at run time:
  \<^item> \<open>JUndefined\<close> is what reading a missing property gives;
  \<^item> a number is represented by the text \<^verbatim>\<open>String(n)\<close> gives it: the code only asks for a
    number's \<^verbatim>\<open>typeof\<close>, its truthiness (false exactly for \<^verbatim>\<open>0\<close>, \<^verbatim>\<open>-0\<close>, whose text is
    \<^verbatim>\<open>0\<close> too, and \<^verbatim>\<open>NaN\<close>) and its text inside a template literal;
  \<^item> a string is a list of characters, each standing for one code unit in the range 0..255;
  \<^item> an array is the list of its elements;
  \<^item> an object is a plain object (prototype \<^verbatim>\<open>Object.prototype\<close>): the list of its own
    properties in the order \<^verbatim>\<open>Object.entries\<close> enumerates them; a lookup takes the first
    entry of a key.
\<close>

datatype json =
    JUndefined
  | JNull
  | JBool bool
  | JNum string
  | JStr string
  | JArr "json list"
  | JObj "(string \<times> json) list"

text \<open>The only exception the validators can raise on such values.\<close>

datatype error = TypeError

definition bind_result :: "error + 'a \<Rightarrow> ('a \<Rightarrow> error + 'b) \<Rightarrow> error + 'b" where
  "bind_result r f = (case r of Inl e \<Rightarrow> Inl e | Inr v \<Rightarrow> f v)"

fun typeof :: "json \<Rightarrow> string" where
  "typeof JUndefined = ''undefined''"
| "typeof JNull = ''object''"
| "typeof (JBool b) = ''boolean''"
| "typeof (JNum n) = ''number''"
| "typeof (JStr s) = ''string''"
| "typeof (JArr xs) = ''object''"
| "typeof (JObj kvs) = ''object''"

fun isArray :: "json \<Rightarrow> bool" where
  "isArray (JArr xs) = True"
| "isArray _ = False"

text \<open>\<^verbatim>\<open>ToBoolean\<close>: what \<^verbatim>\<open>!x\<close>, \<^verbatim>\<open>x && y\<close>, \<^verbatim>\<open>x || y\<close> and \<^verbatim>\<open>if (x)\<close> test.\<close>

fun truthy :: "json \<Rightarrow> bool" where
  "truthy JUndefined = False"
| "truthy JNull = False"
| "truthy (JBool b) = b"
| "truthy (JNum n) = (n \<noteq> ''0'' \<and> n \<noteq> ''NaN'')"
| "truthy (JStr s) = (s \<noteq> [])"
| "truthy (JArr xs) = True"
| "truthy (JObj kvs) = True"

definition nullish :: "json \<Rightarrow> bool" where
  "nullish v = (v = JUndefined \<or> v = JNull)"

text \<open>
  Property access. The validators read the fixed names \<^verbatim>\<open>name\<close>, \<^verbatim>\<open>type\<close>,
  \<^verbatim>\<open>semanticHighlighting\<close>, \<^verbatim>\<open>semanticTokenColors\<close>, \<^verbatim>\<open>colors\<close>, \<^verbatim>\<open>tokenColors\<close>,
  \<^verbatim>\<open>settings\<close> and \<^verbatim>\<open>foreground\<close>; none of them is an array index, \<^verbatim>\<open>length\<close> or a member
  of a built-in prototype, so only a plain object can have one. \<^verbatim>\<open>x.p\<close> raises a
  TypeError when \<^verbatim>\<open>x\<close> is \<^verbatim>\<open>null\<close> or \<^verbatim>\<open>undefined\<close>; \<^verbatim>\<open>x?.p\<close> gives \<^verbatim>\<open>undefined\<close> there.
\<close>

fun prop_of :: "json \<Rightarrow> string \<Rightarrow> json" where
  "prop_of (JObj kvs) k = (case map_of kvs k of None \<Rightarrow> JUndefined | Some v \<Rightarrow> v)"
| "prop_of _ k = JUndefined"

definition get_prop :: "json \<Rightarrow> string \<Rightarrow> error + json" where
  "get_prop v k = (if nullish v then Inl TypeError else Inr (prop_of v k))"

definition opt_prop :: "json \<Rightarrow> string \<Rightarrow> json" where
  "opt_prop v k = (if nullish v then JUndefined else prop_of v k)"

text \<open>The \<^verbatim>\<open>in\<close> operator, applied by the code to a non-null object or an array only.\<close>

fun has_prop :: "string \<Rightarrow> json \<Rightarrow> bool" where
  "has_prop k (JObj kvs) = (k \<in> set (map fst kvs))"
| "has_prop k _ = False"

text \<open>
  \<^verbatim>\<open>ToString\<close>, applied by every \<^verbatim>\<open>${...}\<close> of a template literal. An array is joined
  with commas, \<^verbatim>\<open>null\<close> and \<^verbatim>\<open>undefined\<close> elements giving the empty text. A plain object
  goes through \<^verbatim>\<open>OrdinaryToPrimitive\<close>: it calls the object's \<^verbatim>\<open>toString\<close> if that is
  callable, then \<^verbatim>\<open>valueOf\<close>, and raises a TypeError when neither gives a primitive. An
  own property named \<^verbatim>\<open>toString\<close> of a value of this model is never callable and hides
  \<^verbatim>\<open>Object.prototype.toString\<close>; \<^verbatim>\<open>Object.prototype.valueOf\<close> returns the object itself;
  so such an object raises, and every other object gives \<^verbatim>\<open>[object Object]\<close>.
\<close>

fun js_toString :: "json \<Rightarrow> error + string"
  and js_join :: "json list \<Rightarrow> error + string" where
  "js_toString JUndefined = Inr ''undefined''"
| "js_toString JNull = Inr ''null''"
| "js_toString (JBool b) = Inr (if b then ''true'' else ''false'')"
| "js_toString (JNum n) = Inr n"
| "js_toString (JStr s) = Inr s"
| "js_toString (JArr xs) = js_join xs"
| "js_toString (JObj kvs) =
     (if ''toString'' \<in> set (map fst kvs) then Inl TypeError else Inr ''[object Object]'')"
| "js_join [] = Inr ''''"
| "js_join (x # xs) =
     (case (if x = JUndefined \<or> x = JNull then Inr '''' else js_toString x) of
        Inl e \<Rightarrow> Inl e
      | Inr s \<Rightarrow>
          (if xs = [] then Inr s
           else (case js_join xs of Inl e \<Rightarrow> Inl e | Inr t \<Rightarrow> Inr (s @ '','' @ t))))"

text \<open>The decimal text of an array index.\<close>

fun decimal :: "nat \<Rightarrow> string" where
  "decimal n =
     (if n < 10 then [char_of (48 + n)]
      else decimal (n div 10) @ [char_of (48 + n mod 10)])"

text \<open>
  \<^verbatim>\<open>Object.entries\<close> and \<^verbatim>\<open>Object.keys\<close> of a value that is neither \<^verbatim>\<open>null\<close> nor
  \<^verbatim>\<open>undefined\<close>: the own properties of an object, the indexed elements of an array, the
  indexed characters of a string, nothing for a number or a boolean.
\<close>

fun indexed :: "nat \<Rightarrow> 'a list \<Rightarrow> (string \<times> 'a) list" where
  "indexed i [] = []"
| "indexed i (x # xs) = (decimal i, x) # indexed (Suc i) xs"

fun entries :: "json \<Rightarrow> (string \<times> json) list" where
  "entries (JObj kvs) = kvs"
| "entries (JArr xs) = indexed 0 xs"
| "entries (JStr s) = indexed 0 (map (\<lambda>c. JStr [c]) s)"
| "entries _ = []"

definition keys :: "json \<Rightarrow> string list" where
  "keys v = map fst (entries v)"

text \<open>\<^verbatim>\<open>String.prototype.toLowerCase\<close> and \<^verbatim>\<open>includes\<close> on code units 0..255.\<close>

definition lower_char :: "char \<Rightarrow> char" where
  "lower_char c =
     (let n = (of_char c :: nat)
      in if (65 \<le> n \<and> n \<le> 90) \<or> (192 \<le> n \<and> n \<le> 222 \<and> n \<noteq> 215)
         then char_of (n + 32) else c)"

definition toLowerCase :: "string \<Rightarrow> string" where
  "toLowerCase s = map lower_char s"

fun startsWith :: "string \<Rightarrow> string \<Rightarrow> bool" where
  "startsWith s [] = True"
| "startsWith [] (p # ps) = False"
| "startsWith (c # cs) (p # ps) = (c = p \<and> startsWith cs ps)"

fun str_includes :: "string \<Rightarrow> string \<Rightarrow> bool" where
  "str_includes [] p = (p = [])"
| "str_includes (c # cs) p = (startsWith (c # cs) p \<or> str_includes cs p)"

section \<open>Regular expressions\<close>

text \<open>
  The fragment of regular expressions that \<^verbatim>\<open>hexColorRegex\<close> is written in: a literal
  character, a class of ranges, sequence, alternative, and the counted repetition
  \<^verbatim>\<open>r{n}\<close>. The matcher returns, for a pattern and a text, the rest of the text after every
  way of matching a prefix, in the order a backtracking matcher tries them. With \<^verbatim>\<open>^\<close> in
  front, \<^verbatim>\<open>$\<close> behind and no \<^verbatim>\<open>m\<close> flag, \<^verbatim>\<open>test\<close> succeeds exactly when some way leaves
  nothing of the text.

  With the \<^verbatim>\<open>i\<close> flag and no \<^verbatim>\<open>u\<close> flag two code units match when \<^verbatim>\<open>Canonicalize\<close> gives
  them the same value: the upper-case form of the unit, unless that form is more than one
  unit long, or is below 128 for a unit of 128 or more. On the units 0..255 it maps the
  letters a..z and the units 224..254 except 247 down by 32, 255 to 376, 181 to 924, and
  nothing else.
\<close>

datatype regex =
    Chr char
  | Cls "(char \<times> char) list"
  | Seq regex regex
  | Alt regex regex
  | Rep nat regex

definition canonicalize :: "nat \<Rightarrow> nat" where
  "canonicalize n =
     (if 97 \<le> n \<and> n \<le> 122 then n - 32
      else if 224 \<le> n \<and> n \<le> 254 \<and> n \<noteq> 247 then n - 32
      else if n = 255 then 376
      else if n = 181 then 924
      else n)"

definition char_matches :: "bool \<Rightarrow> char \<Rightarrow> char \<Rightarrow> bool" where
  "char_matches ignoreCase a c =
     (if ignoreCase then canonicalize (of_char a) = canonicalize (of_char c) else a = c)"

definition class_matches :: "bool \<Rightarrow> (char \<times> char) list \<Rightarrow> char \<Rightarrow> bool" where
  "class_matches ignoreCase ranges c =
     list_ex (\<lambda>(lo, hi). list_ex (\<lambda>m. char_matches ignoreCase (char_of m) c)
                            [of_char lo ..< Suc (of_char hi)]) ranges"

fun repeat_match :: "nat \<Rightarrow> (string \<Rightarrow> string list) \<Rightarrow> string \<Rightarrow> string list" where
  "repeat_match 0 f s = [s]"
| "repeat_match (Suc n) f s = concat (map (repeat_match n f) (f s))"

fun rmatch :: "bool \<Rightarrow> regex \<Rightarrow> string \<Rightarrow> string list" where
  "rmatch i (Chr a) s =
     (case s of [] \<Rightarrow> [] | c # cs \<Rightarrow> if char_matches i a c then [cs] else [])"
| "rmatch i (Cls ranges) s =
     (case s of [] \<Rightarrow> [] | c # cs \<Rightarrow> if class_matches i ranges c then [cs] else [])"
| "rmatch i (Seq r1 r2) s = concat (map (rmatch i r2) (rmatch i r1 s))"
| "rmatch i (Alt r1 r2) s = rmatch i r1 s @ rmatch i r2 s"
| "rmatch i (Rep n r) s = repeat_match n (rmatch i r) s"

definition regex_test :: "bool \<Rightarrow> regex \<Rightarrow> string \<Rightarrow> bool" where
  "regex_test ignoreCase r s = ([] \<in> set (rmatch ignoreCase r s))"

section \<open>theme-validator.ts\<close>

subsection \<open>isValidHexColor, validateColorFormat\<close>

definition hexDigitClass :: regex where
  "hexDigitClass = Cls [(CHR ''0'', CHR ''9''), (CHR ''a'', CHR ''f'')]"

definition hexColorRegex :: regex where
  "hexColorRegex =
     Seq (Chr (CHR ''#''))
         (Alt (Rep 3 hexDigitClass) (Alt (Rep 6 hexDigitClass) (Rep 8 hexDigitClass)))"

definition isValidHexColor :: "json \<Rightarrow> bool" where
  "isValidHexColor v =
     (if typeof v \<noteq> ''string'' then False
      else (case v of JStr s \<Rightarrow> regex_test True hexColorRegex s | _ \<Rightarrow> False))"

definition validateColorFormat :: "json \<Rightarrow> bool" where
  "validateColorFormat color = isValidHexColor color"

text \<open>
  The rule in the words of the specification: one \<^verbatim>\<open>#\<close>, then exactly 3, 6 or 8
  hexadecimal digits of either case.
\<close>

definition hex_digit :: "char \<Rightarrow> bool" where
  "hex_digit c = (c \<in> set ''0123456789abcdefABCDEF'')"

definition hex_color_spec :: "string \<Rightarrow> bool" where
  "hex_color_spec s =
     (case s of
        [] \<Rightarrow> False
      | c # ds \<Rightarrow> c = CHR ''#'' \<and> (length ds = 3 \<or> length ds = 6 \<or> length ds = 8)
                  \<and> list_all hex_digit ds)"

subsection \<open>ThemeValidationResult and the messages\<close>

record ThemeValidationResult =
  isValid :: bool
  errors :: "string list"
  warnings :: "string list"

text \<open>A text between two apostrophes, as the template literals write it.\<close>

definition quoted :: "string \<Rightarrow> string" where
  "quoted s = [CHR 0x27] @ s @ [CHR 0x27]"

definition msg_not_object :: string where
  "msg_not_object = ''Theme must be a non-null object''"

definition msg_missing :: "string \<Rightarrow> string" where
  "msg_missing prop = ''Missing required property: '' @ prop"

definition msg_invalid_type :: "string \<Rightarrow> string" where
  "msg_invalid_type got =
     ''Invalid type value: expected '' @ quoted ''dark'' @ '' or '' @ quoted ''light''
       @ '', got '' @ quoted got"

definition msg_invalid_semanticHighlighting :: "string \<Rightarrow> string" where
  "msg_invalid_semanticHighlighting ty =
     ''Invalid semanticHighlighting value: expected boolean, got '' @ ty"

definition msg_invalid_colors :: string where
  "msg_invalid_colors = ''Invalid colors value: expected an object''"

definition msg_invalid_tokenColors :: string where
  "msg_invalid_tokenColors = ''Invalid tokenColors value: expected an array''"

definition msg_invalid_semanticTokenColors :: string where
  "msg_invalid_semanticTokenColors = ''Invalid semanticTokenColors value: expected an object''"

definition msg_color_format :: "string \<Rightarrow> string \<Rightarrow> string" where
  "msg_color_format key val = ''Invalid color format for '' @ quoted key @ '': '' @ val"

definition msg_foreground_format :: "string \<Rightarrow> string \<Rightarrow> string" where
  "msg_foreground_format ruleName val =
     ''Invalid foreground color format in tokenColors '' @ quoted ruleName @ '': '' @ val"

definition msg_rule_at_index :: "nat \<Rightarrow> string" where
  "msg_rule_at_index index = ''rule at index '' @ decimal index"

definition msg_name_mismatch :: "string \<Rightarrow> string \<Rightarrow> string" where
  "msg_name_mismatch name variant =
     ''Theme name '' @ quoted name @ '' does not contain expected variant '' @ quoted variant"

definition msg_type_mismatch :: "string \<Rightarrow> string \<Rightarrow> string" where
  "msg_type_mismatch ty variant =
     ''Theme type '' @ quoted ty @ '' does not match expected variant '' @ quoted variant"

subsection \<open>validateThemeStructure\<close>

definition REQUIRED_THEME_PROPERTIES :: "string list" where
  "REQUIRED_THEME_PROPERTIES =
     [''name'', ''type'', ''semanticHighlighting'', ''semanticTokenColors'', ''colors'',
      ''tokenColors'']"

text \<open>
  Each block of the function pushes onto \<^verbatim>\<open>errors\<close>; the model passes the list along.
  The first block is the loop over \<^verbatim>\<open>REQUIRED_THEME_PROPERTIES\<close>.
\<close>

fun check_required :: "string list \<Rightarrow> json \<Rightarrow> string list \<Rightarrow> string list" where
  "check_required [] themeObj errs = errs"
| "check_required (prop # props) themeObj errs =
     check_required props themeObj
       (if \<not> has_prop prop themeObj then errs @ [msg_missing prop] else errs)"

definition check_type :: "json \<Rightarrow> string list \<Rightarrow> error + string list" where
  "check_type themeObj errs =
     (if has_prop ''type'' themeObj then
        (if prop_of themeObj ''type'' \<noteq> JStr ''dark'' \<and> prop_of themeObj ''type'' \<noteq> JStr ''light''
         then bind_result (js_toString (prop_of themeObj ''type''))
                (\<lambda>got. Inr (errs @ [msg_invalid_type got]))
         else Inr errs)
      else Inr errs)"

definition check_semanticHighlighting :: "json \<Rightarrow> string list \<Rightarrow> string list" where
  "check_semanticHighlighting themeObj errs =
     (if has_prop ''semanticHighlighting'' themeObj then
        (if typeof (prop_of themeObj ''semanticHighlighting'') \<noteq> ''boolean''
         then errs @ [msg_invalid_semanticHighlighting
                        (typeof (prop_of themeObj ''semanticHighlighting''))]
         else errs)
      else errs)"

definition check_colors :: "json \<Rightarrow> string list \<Rightarrow> string list" where
  "check_colors themeObj errs =
     (if has_prop ''colors'' themeObj then
        (if typeof (prop_of themeObj ''colors'') \<noteq> ''object''
            \<or> prop_of themeObj ''colors'' = JNull
            \<or> isArray (prop_of themeObj ''colors'')
         then errs @ [msg_invalid_colors] else errs)
      else errs)"

definition check_tokenColors :: "json \<Rightarrow> string list \<Rightarrow> string list" where
  "check_tokenColors themeObj errs =
     (if has_prop ''tokenColors'' themeObj then
        (if \<not> isArray (prop_of themeObj ''tokenColors'')
         then errs @ [msg_invalid_tokenColors] else errs)
      else errs)"

definition check_semanticTokenColors :: "json \<Rightarrow> string list \<Rightarrow> string list" where
  "check_semanticTokenColors themeObj errs =
     (if has_prop ''semanticTokenColors'' themeObj then
        (if typeof (prop_of themeObj ''semanticTokenColors'') \<noteq> ''object''
            \<or> prop_of themeObj ''semanticTokenColors'' = JNull
            \<or> isArray (prop_of themeObj ''semanticTokenColors'')
         then errs @ [msg_invalid_semanticTokenColors] else errs)
      else errs)"

definition validateThemeStructure :: "json \<Rightarrow> error + ThemeValidationResult" where
  "validateThemeStructure theme =
     (if typeof theme \<noteq> ''object'' \<or> theme = JNull
      then Inr \<lparr>isValid = False, errors = [msg_not_object], warnings = []\<rparr>
      else
        bind_result (check_type theme (check_required REQUIRED_THEME_PROPERTIES theme []))
          (\<lambda>errs1.
             let errs2 = check_semanticHighlighting theme errs1;
                 errs3 = check_colors theme errs2;
                 errs4 = check_tokenColors theme errs3;
                 errs5 = check_semanticTokenColors theme errs4
             in Inr \<lparr>isValid = (length errs5 = 0), errors = errs5, warnings = []\<rparr>))"

subsection \<open>validateThemeColors\<close>

text \<open>The loop over \<^verbatim>\<open>Object.entries(theme.colors)\<close>.\<close>

fun check_color_entries :: "(string \<times> json) list \<Rightarrow> string list \<Rightarrow> error + string list" where
  "check_color_entries [] errs = Inr errs"
| "check_color_entries ((key, val) # rest) errs =
     (if \<not> isValidHexColor val
      then (case js_toString val of
              Inl e \<Rightarrow> Inl e
            | Inr text \<Rightarrow> check_color_entries rest (errs @ [msg_color_format key text]))
      else check_color_entries rest errs)"

text \<open>
  The callback of \<^verbatim>\<open>theme.tokenColors.forEach\<close>. \<^verbatim>\<open>rule.settings\<close> raises on a rule that
  is \<^verbatim>\<open>null\<close> or \<^verbatim>\<open>undefined\<close>; the \<^verbatim>\<open>?.\<close> after it does not. The guard is the truthiness
  of the foreground; \<^verbatim>\<open>rule.name || ...\<close> takes the name when it is truthy.
\<close>

definition check_rule :: "json \<Rightarrow> nat \<Rightarrow> string list \<Rightarrow> error + string list" where
  "check_rule rule index errs =
     bind_result (get_prop rule ''settings'')
       (\<lambda>settings.
          let foreground = opt_prop settings ''foreground''
          in if truthy foreground \<and> \<not> isValidHexColor foreground
             then bind_result
                    (if truthy (prop_of rule ''name'') then js_toString (prop_of rule ''name'')
                     else Inr (msg_rule_at_index index))
                    (\<lambda>ruleName.
                       bind_result (js_toString foreground)
                         (\<lambda>text. Inr (errs @ [msg_foreground_format ruleName text])))
             else Inr errs)"

fun check_rules :: "json list \<Rightarrow> nat \<Rightarrow> string list \<Rightarrow> error + string list" where
  "check_rules [] index errs = Inr errs"
| "check_rules (rule # rest) index errs =
     (case check_rule rule index errs of
        Inl e \<Rightarrow> Inl e
      | Inr errs' \<Rightarrow> check_rules rest (Suc index) errs')"

text \<open>
  \<^verbatim>\<open>theme.tokenColors.forEach\<close> is a call of \<^verbatim>\<open>undefined\<close>, a TypeError, when the truthy
  value is not an array.
\<close>

definition validateThemeColors :: "json \<Rightarrow> error + ThemeValidationResult" where
  "validateThemeColors theme =
     bind_result (get_prop theme ''colors'')
       (\<lambda>colors.
          bind_result
            (if truthy colors then check_color_entries (entries colors) [] else Inr [])
            (\<lambda>errs1.
               bind_result (get_prop theme ''tokenColors'')
                 (\<lambda>tokenColors.
                    bind_result
                      (if truthy tokenColors
                       then (case tokenColors of
                               JArr rules \<Rightarrow> check_rules rules 0 errs1
                             | _ \<Rightarrow> Inl TypeError)
                       else Inr errs1)
                      (\<lambda>errs2.
                         Inr \<lparr>isValid = (length errs2 = 0), errors = errs2,
                              warnings = []\<rparr>))))"

subsection \<open>validateThemeName, validateCompleteTheme\<close>

datatype variant = Dark | Light

fun variant_word :: "variant \<Rightarrow> string" where
  "variant_word Dark = ''dark''"
| "variant_word Light = ''light''"

definition validateThemeName :: "json \<Rightarrow> variant \<Rightarrow> error + bool" where
  "validateThemeName theme expectedVariant =
     bind_result (get_prop theme ''name'')
       (\<lambda>name.
          if \<not> truthy name \<or> typeof name \<noteq> ''string'' then Inr False
          else (case name of
                  JStr s \<Rightarrow>
                    (let themeName = toLowerCase s
                     in if expectedVariant = Dark
                        then Inr (str_includes themeName ''dark'')
                        else Inr (str_includes themeName ''light''))
                | _ \<Rightarrow> Inr False))"

definition validateCompleteTheme :: "json \<Rightarrow> variant \<Rightarrow> error + ThemeValidationResult" where
  "validateCompleteTheme theme expectedVariant =
     bind_result (validateThemeStructure theme)
       (\<lambda>structureResult.
          let allErrors0 = [] @ errors structureResult;
              allWarnings0 = [] @ warnings structureResult
          in if \<not> isValid structureResult
             then Inr \<lparr>isValid = False, errors = allErrors0, warnings = allWarnings0\<rparr>
             else
               bind_result (validateThemeColors theme)
                 (\<lambda>colorResult.
                    let allErrors1 = allErrors0 @ errors colorResult;
                        allWarnings1 = allWarnings0 @ warnings colorResult
                    in bind_result (validateThemeName theme expectedVariant)
                         (\<lambda>nameOk.
                            bind_result
                              (if \<not> nameOk
                               then bind_result (js_toString (prop_of theme ''name''))
                                      (\<lambda>name. Inr (allWarnings1
                                          @ [msg_name_mismatch name (variant_word expectedVariant)]))
                               else Inr allWarnings1)
                              (\<lambda>allWarnings2.
                                 bind_result
                                   (if prop_of theme ''type'' \<noteq> JStr (variant_word expectedVariant)
                                    then bind_result (js_toString (prop_of theme ''type''))
                                           (\<lambda>ty. Inr (allErrors1
                                               @ [msg_type_mismatch ty (variant_word expectedVariant)]))
                                    else Inr allErrors1)
                                   (\<lambda>allErrors2.
                                      Inr \<lparr>isValid = (length allErrors2 = 0),
                                           errors = allErrors2,
                                           warnings = allWarnings2\<rparr>)))))"

subsection \<open>countWorkbenchColors, countTokenColorRules\<close>

definition countWorkbenchColors :: "json \<Rightarrow> error + nat" where
  "countWorkbenchColors theme =
     bind_result (get_prop theme ''colors'')
       (\<lambda>colors.
          if \<not> truthy colors \<or> typeof colors \<noteq> ''object'' then Inr 0
          else Inr (length (keys colors)))"

definition countTokenColorRules :: "json \<Rightarrow> error + nat" where
  "countTokenColorRules theme =
     bind_result (get_prop theme ''tokenColors'')
       (\<lambda>tokenColors.
          if \<not> truthy tokenColors \<or> \<not> isArray tokenColors then Inr 0
          else (case tokenColors of JArr rules \<Rightarrow> Inr (length rules) | _ \<Rightarrow> Inr 0))"

section \<open>fixtures.ts and constants.ts: createConfiguration\<close>

text \<open>
  A configuration object is a finite map from option names to values; nothing in the code
  reads the order of its properties. \<^verbatim>\<open>{...a, ...b}\<close> copies the own properties of \<^verbatim>\<open>a\<close>,
  then those of \<^verbatim>\<open>b\<close> over them; spreading \<^verbatim>\<open>undefined\<close> (the parameter left out) copies
  nothing. A property of \<^verbatim>\<open>b\<close> whose value is \<^verbatim>\<open>undefined\<close> is an own property and is copied.
\<close>

type_synonym config = "string \<rightharpoonup> json"

definition CONFIGURATION_DEFAULTS :: config where
  "CONFIGURATION_DEFAULTS = map_of
     [(''darkContrast'', JStr ''medium''),
      (''lightContrast'', JStr ''medium''),
      (''darkWorkbench'', JStr ''material''),
      (''lightWorkbench'', JStr ''material''),
      (''darkCursor'', JStr ''white''),
      (''lightCursor'', JStr ''black''),
      (''darkSelection'', JStr ''grey''),
      (''lightSelection'', JStr ''grey''),
      (''darkPalette'', JStr ''material''),
      (''lightPalette'', JStr ''material''),
      (''colorfulSyntax'', JBool False),
      (''italicKeywords'', JBool False),
      (''italicComments'', JBool True),
      (''diagnosticTextBackgroundOpacity'', JStr ''0%''),
      (''highContrast'', JBool False)]"

definition spread :: "config option \<Rightarrow> config" where
  "spread obj = (case obj of None \<Rightarrow> Map.empty | Some m \<Rightarrow> m)"

definition createConfiguration :: "config option \<Rightarrow> config" where
  "createConfiguration overrides = spread (Some CONFIGURATION_DEFAULTS) ++ spread overrides"

text \<open>The defaults as the documentation lists them, option by option.\<close>

definition documented_default :: "string \<Rightarrow> json option" where
  "documented_default k =
     (if k = ''darkContrast'' \<or> k = ''lightContrast'' then Some (JStr ''medium'')
      else if k = ''darkWorkbench'' \<or> k = ''lightWorkbench'' then Some (JStr ''material'')
      else if k = ''darkCursor'' then Some (JStr ''white'')
      else if k = ''lightCursor'' then Some (JStr ''black'')
      else if k = ''darkSelection'' \<or> k = ''lightSelection'' then Some (JStr ''grey'')
      else if k = ''darkPalette'' \<or> k = ''lightPalette'' then Some (JStr ''material'')
      else if k = ''colorfulSyntax'' then Some (JBool False)
      else if k = ''italicKeywords'' then Some (JBool False)
      else if k = ''italicComments'' then Some (JBool True)
      else if k = ''diagnosticTextBackgroundOpacity'' then Some (JStr ''0%'')
      else if k = ''highContrast'' then Some (JBool False)
      else None)"

section \<open>The claims in the words of the specification\<close>

text \<open>The codes of the hexadecimal digits.\<close>

definition hex_code :: "nat \<Rightarrow> bool" where
  "hex_code n =
     ((48 \<le> n \<and> n \<le> 57) \<or> (65 \<le> n \<and> n \<le> 70) \<or> (97 \<le> n \<and> n \<le> 102))"

text \<open>
  What the counting utilities are said to return: 0 when \<^verbatim>\<open>colors\<close> is missing,
  \<^verbatim>\<open>null\<close> or not an object, else its number of keys; 0 when \<^verbatim>\<open>tokenColors\<close> is missing
  or not an array, else its length.
\<close>

definition count_colors_spec :: "json \<Rightarrow> nat" where
  "count_colors_spec theme =
     (let colors = prop_of theme ''colors''
      in if colors = JUndefined \<or> colors = JNull \<or> typeof colors \<noteq> ''object'' then 0
         else length (keys colors))"

definition count_rules_spec :: "json \<Rightarrow> nat" where
  "count_rules_spec theme =
     (case prop_of theme ''tokenColors'' of JArr rules \<Rightarrow> length rules | _ \<Rightarrow> 0)"

text \<open>A result that one of the three validators returns on the given input.\<close>

definition returned_by :: "json \<Rightarrow> variant \<Rightarrow> ThemeValidationResult \<Rightarrow> bool" where
  "returned_by theme expectedVariant r =
     (validateThemeStructure theme = Inr r
      \<or> validateThemeColors theme = Inr r
      \<or> validateCompleteTheme theme expectedVariant = Inr r)"

text \<open>
  A document with the six required properties, all of them well-formed except that nothing
  is asked of \<^verbatim>\<open>name\<close> but its presence.
\<close>

fun is_mapping :: "json \<Rightarrow> bool" where
  "is_mapping (JObj kvs) = True"
| "is_mapping _ = False"

definition well_formed_but_name :: "json \<Rightarrow> bool" where
  "well_formed_but_name doc =
     (list_all (\<lambda>prop. has_prop prop doc) REQUIRED_THEME_PROPERTIES
      \<and> (prop_of doc ''type'' = JStr ''dark'' \<or> prop_of doc ''type'' = JStr ''light'')
      \<and> typeof (prop_of doc ''semanticHighlighting'') = ''boolean''
      \<and> is_mapping (prop_of doc ''colors'')
      \<and> isArray (prop_of doc ''tokenColors'')
      \<and> is_mapping (prop_of doc ''semanticTokenColors''))"

text \<open>The error for a \<^verbatim>\<open>type\<close> that is a string other than the expected variant.\<close>

definition type_mismatch_errors :: "json \<Rightarrow> variant \<Rightarrow> string list" where
  "type_mismatch_errors doc v =
     (case prop_of doc ''type'' of
        JStr ty \<Rightarrow> if ty \<noteq> variant_word v then [msg_type_mismatch ty (variant_word v)] else []
      | _ \<Rightarrow> [])"

section \<open>Example documents\<close>

definition minimal_theme :: "json \<Rightarrow> json \<Rightarrow> json \<Rightarrow> json \<Rightarrow> (string \<times> json) list" where
  "minimal_theme name ty colors tokenColors =
     [(''name'', name), (''type'', ty), (''semanticHighlighting'', JBool True),
      (''semanticTokenColors'', JObj []), (''colors'', colors), (''tokenColors'', tokenColors)]"

text \<open>A document whose \<^verbatim>\<open>tokenColors\<close> holds \<^verbatim>\<open>null\<close>.\<close>

definition theme_with_null_rule :: json where
  "theme_with_null_rule =
     JObj (minimal_theme (JStr ''Gruvbox Material'') (JStr ''light'') (JObj []) (JArr [JNull]))"

text \<open>A document whose \<^verbatim>\<open>type\<close> is an object with an own property \<^verbatim>\<open>toString\<close>.\<close>

definition theme_with_object_type :: json where
  "theme_with_object_type = JObj [(''type'', JObj [(''toString'', JNum ''1'')])]"

text \<open>
  A well-typed \<^verbatim>\<open>ThemeData\<close> whose only rule has the empty string as foreground, and one
  that has the empty string as a workbench color.
\<close>

definition theme_with_empty_foreground :: json where
  "theme_with_empty_foreground =
     JObj (minimal_theme (JStr ''Gruvbox Material Dark'') (JStr ''dark'') (JObj [])
       (JArr [JObj [(''name'', JStr ''Comment''), (''scope'', JStr ''comment''),
                    (''settings'', JObj [(''foreground'', JStr [])])]]))"

definition theme_with_empty_color :: json where
  "theme_with_empty_color =
     JObj (minimal_theme (JStr ''Gruvbox Material Dark'') (JStr ''dark'')
       (JObj [(''editor.background'', JStr [])]) (JArr []))"

text \<open>A well-formed document whose \<^verbatim>\<open>name\<close> is the number 42.\<close>

definition theme_with_numeric_name :: json where
  "theme_with_numeric_name =
     JObj (minimal_theme (JNum ''42'') (JStr ''dark'')
       (JObj [(''editor.background'', JStr ''#282828'')]) (JArr []))"

text \<open>
  A well-formed document whose \<^verbatim>\<open>name\<close> is an object with an own property
  \<^verbatim>\<open>toString\<close>.
\<close>

definition theme_with_object_name :: json where
  "theme_with_object_name =
     JObj (minimal_theme (JObj [(''toString'', JNum ''1'')]) (JStr ''dark'') (JObj []) (JArr []))"

text \<open>A valid dark theme, and the same with a seventh top-level field.\<close>

definition plain_theme :: "(string \<times> json) list" where
  "plain_theme =
     minimal_theme (JStr ''Gruvbox Material Dark'') (JStr ''dark'')
       (JObj [(''editor.background'', JStr ''#282828'')])
       (JArr [JObj [(''name'', JStr ''Comment''), (''scope'', JStr ''comment''),
                    (''settings'', JObj [(''foreground'', JStr ''#928374'')])]])"

definition theme_with_extra_field :: "(string \<times> json) list" where
  "theme_with_extra_field = (''$schema'', JStr ''vscode://schemas/color-theme'') # plain_theme"

section \<open>What the validators report, in the words of the specification\<close>

text \<open>
  The structural check: one error for each required property that is absent, then one each
  for a present \<^verbatim>\<open>type\<close> that is neither \<^verbatim>\<open>dark\<close> nor \<^verbatim>\<open>light\<close>, a present
  \<^verbatim>\<open>semanticHighlighting\<close> that is not a boolean, a present \<^verbatim>\<open>colors\<close> or
  \<^verbatim>\<open>semanticTokenColors\<close> that is \<^verbatim>\<open>null\<close>, an array or not an object, and a present
  \<^verbatim>\<open>tokenColors\<close> that is not an array. \<open>got\<close> is the text of the \<^verbatim>\<open>type\<close> value.
\<close>

definition missing_errors :: "json \<Rightarrow> string list" where
  "missing_errors theme =
     map msg_missing (filter (\<lambda>prop. \<not> has_prop prop theme) REQUIRED_THEME_PROPERTIES)"

fun is_boolean :: "json \<Rightarrow> bool" where
  "is_boolean (JBool b) = True"
| "is_boolean _ = False"

definition not_a_mapping :: "json \<Rightarrow> bool" where
  "not_a_mapping v = (v = JNull \<or> isArray v \<or> typeof v \<noteq> ''object'')"

definition malformed_errors :: "json \<Rightarrow> string \<Rightarrow> string list" where
  "malformed_errors theme got =
     (if has_prop ''type'' theme \<and> prop_of theme ''type'' \<noteq> JStr ''dark''
         \<and> prop_of theme ''type'' \<noteq> JStr ''light''
      then [msg_invalid_type got] else [])
     @ (if has_prop ''semanticHighlighting'' theme
           \<and> \<not> is_boolean (prop_of theme ''semanticHighlighting'')
        then [msg_invalid_semanticHighlighting (typeof (prop_of theme ''semanticHighlighting''))]
        else [])
     @ (if has_prop ''colors'' theme \<and> not_a_mapping (prop_of theme ''colors'')
        then [msg_invalid_colors] else [])
     @ (if has_prop ''tokenColors'' theme \<and> \<not> isArray (prop_of theme ''tokenColors'')
        then [msg_invalid_tokenColors] else [])
     @ (if has_prop ''semanticTokenColors'' theme
           \<and> not_a_mapping (prop_of theme ''semanticTokenColors'')
        then [msg_invalid_semanticTokenColors] else [])"

text \<open>
  The color check: one error for each entry of \<^verbatim>\<open>colors\<close> whose value is not a hex color,
  naming the key; one for each rule whose foreground is truthy and not a hex color, naming
  the rule by its name, or by its index when the name is missing or empty.
\<close>

definition text_of :: "json \<Rightarrow> string" where
  "text_of v = (case js_toString v of Inr s \<Rightarrow> s | Inl e \<Rightarrow> [])"

definition color_entry_errors :: "(string \<times> json) list \<Rightarrow> string list" where
  "color_entry_errors es =
     map (\<lambda>(key, val). msg_color_format key (text_of val))
       (filter (\<lambda>(key, val). \<not> isValidHexColor val) es)"

definition rule_foreground :: "json \<Rightarrow> json" where
  "rule_foreground rule = opt_prop (prop_of rule ''settings'') ''foreground''"

definition rule_reported :: "json \<Rightarrow> bool" where
  "rule_reported rule =
     (truthy (rule_foreground rule) \<and> \<not> isValidHexColor (rule_foreground rule))"

definition rule_label :: "nat \<Rightarrow> json \<Rightarrow> string" where
  "rule_label index rule =
     (if truthy (prop_of rule ''name'') then text_of (prop_of rule ''name'')
      else msg_rule_at_index index)"

fun rule_errors :: "json list \<Rightarrow> nat \<Rightarrow> string list" where
  "rule_errors [] index = []"
| "rule_errors (rule # rest) index =
     (if rule_reported rule
      then [msg_foreground_format (rule_label index rule) (text_of (rule_foreground rule))]
      else [])
     @ rule_errors rest (Suc index)"

text \<open>
  A value of the type \<^verbatim>\<open>ThemeData\<close> as far as the color check reads it: \<^verbatim>\<open>colors\<close> maps
  keys to strings, \<^verbatim>\<open>tokenColors\<close> is an array of rules, a rule is an object with an
  optional string \<^verbatim>\<open>name\<close> and an object \<^verbatim>\<open>settings\<close> with an optional string
  \<^verbatim>\<open>foreground\<close>.
\<close>

fun is_string_or_absent :: "json \<Rightarrow> bool" where
  "is_string_or_absent (JStr s) = True"
| "is_string_or_absent JUndefined = True"
| "is_string_or_absent _ = False"

definition typed_rule :: "json \<Rightarrow> bool" where
  "typed_rule rule =
     (is_mapping rule \<and> is_mapping (prop_of rule ''settings'')
      \<and> is_string_or_absent (prop_of rule ''name'')
      \<and> is_string_or_absent (prop_of (prop_of rule ''settings'') ''foreground''))"

fun rules_of :: "json \<Rightarrow> json list" where
  "rules_of (JArr rules) = rules"
| "rules_of _ = []"

definition typed_theme :: "json \<Rightarrow> bool" where
  "typed_theme theme =
     (is_mapping theme \<and> is_mapping (prop_of theme ''colors'')
      \<and> list_all (\<lambda>(key, val). typeof val = ''string'') (entries (prop_of theme ''colors''))
      \<and> isArray (prop_of theme ''tokenColors'')
      \<and> list_all typed_rule (rules_of (prop_of theme ''tokenColors'')))"

text \<open>The name check and its warning.\<close>

definition name_contains_variant :: "json \<Rightarrow> variant \<Rightarrow> bool" where
  "name_contains_variant doc v =
     (case prop_of doc ''name'' of
        JStr s \<Rightarrow> str_includes (toLowerCase s) (variant_word v)
      | _ \<Rightarrow> False)"

definition name_warnings :: "json \<Rightarrow> variant \<Rightarrow> string \<Rightarrow> string list" where
  "name_warnings doc v nameText =
     (if name_contains_variant doc v then []
      else [msg_name_mismatch nameText (variant_word v)])"

section \<open>The hex-color predicate\<close>

lemma char_eq_code: "(c = d) = ((of_char c :: nat) = of_char d)"
  by simp

lemma canonicalize_hex:
  "canonicalize n \<in> {48, 49, 50, 51, 52, 53, 54, 55, 56, 57, 65, 66, 67, 68, 69, 70}
     \<longleftrightarrow> hex_code n"
  unfolding canonicalize_def hex_code_def by (simp split: if_splits) arith

lemma class_matches_hex_code:
  "class_matches True [(CHR ''0'', CHR ''9''), (CHR ''a'', CHR ''f'')] c = hex_code (of_char c)"
proof -
  have "class_matches True [(CHR ''0'', CHR ''9''), (CHR ''a'', CHR ''f'')] c
      = (canonicalize (of_char c)
           \<in> {48, 49, 50, 51, 52, 53, 54, 55, 56, 57, 65, 66, 67, 68, 69, 70})"
    by (simp add: class_matches_def char_matches_def upt_rec_numeral
          canonicalize_def[of "numeral k" for k])
  then show ?thesis by (simp only: canonicalize_hex)
qed

lemma hex_digit_code: "hex_digit c = hex_code (of_char c)"
proof -
  have "hex_digit c =
          ((of_char c :: nat) \<in> {48, 49, 50, 51, 52, 53, 54, 55, 56, 57, 97, 98, 99, 100,
                                 101, 102, 65, 66, 67, 68, 69, 70})"
    unfolding hex_digit_def by (simp add: char_eq_code[of c])
  also have "\<dots> = hex_code (of_char c)"
    unfolding hex_code_def by simp arith
  finally show ?thesis .
qed

lemma rmatch_hexDigitClass:
  "rmatch True hexDigitClass s =
     (case s of [] \<Rightarrow> [] | c # cs \<Rightarrow> if hex_digit c then [cs] else [])"
  by (cases s) (simp_all add: hexDigitClass_def class_matches_hex_code hex_digit_code)

text \<open>\<^verbatim>\<open>[0-9a-f]{n}\<close> takes exactly \<open>n\<close> hexadecimal digits off the front, in one way.\<close>

lemma repeat_match_hex:
  "repeat_match n (rmatch True hexDigitClass) s =
     (if n \<le> length s \<and> list_all hex_digit (take n s) then [drop n s] else [])"
proof (induction n arbitrary: s)
  case 0
  show ?case by simp
next
  case (Suc n)
  show ?case
  proof (cases s)
    case Nil
    have "rmatch True hexDigitClass [] = []"
      by (simp add: rmatch_hexDigitClass)
    then show ?thesis using Nil by simp
  next
    case (Cons c cs)
    have step: "rmatch True hexDigitClass (c # cs) = (if hex_digit c then [cs] else [])"
      by (simp add: rmatch_hexDigitClass)
    show ?thesis
    proof (cases "hex_digit c")
      case True
      then have "repeat_match (Suc n) (rmatch True hexDigitClass) (c # cs)
                   = repeat_match n (rmatch True hexDigitClass) cs"
        using step by simp
      also have "\<dots> = (if n \<le> length cs \<and> list_all hex_digit (take n cs)
                          then [drop n cs] else [])"
        by (rule Suc.IH)
      finally show ?thesis using Cons True by simp
    next
      case False
      then have "repeat_match (Suc n) (rmatch True hexDigitClass) (c # cs) = []"
        using step by simp
      then show ?thesis using Cons False by simp
    qed
  qed
qed

lemma hash_matches: "char_matches True (CHR ''#'') c = (c = CHR ''#'')"
proof -
  have "(canonicalize 35 = canonicalize n) = (n = 35)" for n
    unfolding canonicalize_def by (simp split: if_splits) arith
  then show ?thesis
    by (simp add: char_matches_def char_eq_code[of c])
qed

lemma nothing_left:
  "([] \<in> set (if n \<le> length s \<and> list_all hex_digit (take n s) then [drop n s] else []))
     = (length s = n \<and> list_all hex_digit s)"
  by auto

lemma regex_test_hexColorRegex: "regex_test True hexColorRegex s = hex_color_spec s"
proof (cases s)
  case Nil
  then show ?thesis by (simp add: regex_test_def hexColorRegex_def hex_color_spec_def)
next
  case (Cons c ds)
  have "regex_test True hexColorRegex (c # ds) =
          (c = CHR ''#'' \<and> ([] \<in> set (repeat_match 3 (rmatch True hexDigitClass) ds)
             \<or> [] \<in> set (repeat_match 6 (rmatch True hexDigitClass) ds)
             \<or> [] \<in> set (repeat_match 8 (rmatch True hexDigitClass) ds)))"
    by (simp add: regex_test_def hexColorRegex_def hash_matches)
  also have "\<dots> = hex_color_spec (c # ds)"
    by (simp only: repeat_match_hex nothing_left) (auto simp: hex_color_spec_def)
  finally show ?thesis using Cons by simp
qed

lemma isValidHexColor_JStr: "isValidHexColor (JStr s) = hex_color_spec s"
  by (simp add: isValidHexColor_def regex_test_hexColorRegex)

lemma isValidHexColor_empty: "\<not> isValidHexColor (JStr [])"
  by (simp add: isValidHexColor_JStr hex_color_spec_def)

text \<open>
  Claim C4. For every value, \<^verbatim>\<open>isValidHexColor\<close>, which \<^verbatim>\<open>validateColorFormat\<close> calls,
  returns true if and only if the value is a string made of one \<^verbatim>\<open>#\<close> followed by exactly
  3, 6 or 8 hexadecimal digits of either case; every other string and every value that is
  not a string is rejected.
\<close>

theorem isValidHexColor_iff:
  "validateColorFormat v = isValidHexColor v
   \<and> (isValidHexColor v \<longleftrightarrow> (\<exists>s. v = JStr s \<and> hex_color_spec s))"
  by (cases v)
     (simp_all add: validateColorFormat_def isValidHexColor_JStr, simp_all add: isValidHexColor_def)

theorem isValidHexColor_iff_witness:
  "isValidHexColor (JStr ''#1aF'') \<and> \<not> isValidHexColor (JStr ''#1aF0'')
   \<and> \<not> isValidHexColor (JNum ''123'')"
  using isValidHexColor_iff[of "JStr ''#1aF''"] isValidHexColor_iff[of "JStr ''#1aF0''"]
    isValidHexColor_iff[of "JNum ''123''"]
  by (simp add: hex_color_spec_def hex_digit_def)

section \<open>The validators on the example documents\<close>

lemmas structure_defs =
  validateThemeStructure_def check_type_def check_semanticHighlighting_def check_colors_def
  check_tokenColors_def check_semanticTokenColors_def REQUIRED_THEME_PROPERTIES_def
  bind_result_def minimal_theme_def

lemmas colors_defs =
  validateThemeColors_def check_rule_def get_prop_def opt_prop_def nullish_def bind_result_def
  minimal_theme_def isValidHexColor_JStr hex_color_spec_def hex_digit_def

lemmas complete_defs =
  validateCompleteTheme_def validateThemeName_def get_prop_def nullish_def bind_result_def

lemma numeric_name_structure:
  "validateThemeStructure theme_with_numeric_name
     = Inr \<lparr>isValid = True, errors = [], warnings = []\<rparr>"
  by (simp add: theme_with_numeric_name_def structure_defs)

lemma numeric_name_colors:
  "validateThemeColors theme_with_numeric_name
     = Inr \<lparr>isValid = True, errors = [], warnings = []\<rparr>"
  by (simp add: theme_with_numeric_name_def colors_defs)

lemma numeric_name_complete:
  "validateCompleteTheme theme_with_numeric_name Dark
     = Inr \<lparr>isValid = True, errors = [],
            warnings = [msg_name_mismatch ''42'' ''dark'']\<rparr>"
  by (simp add: complete_defs numeric_name_structure numeric_name_colors)
     (simp add: theme_with_numeric_name_def minimal_theme_def)

lemma plain_structure:
  "validateThemeStructure (JObj plain_theme)
     = Inr \<lparr>isValid = True, errors = [], warnings = []\<rparr>"
  by (simp add: plain_theme_def structure_defs)

lemma plain_colors:
  "validateThemeColors (JObj plain_theme)
     = Inr \<lparr>isValid = True, errors = [], warnings = []\<rparr>"
  by (simp add: plain_theme_def colors_defs)

lemma lower_plain_name: "toLowerCase ''Gruvbox Material Dark'' = ''gruvbox material dark''"
  by code_simp

lemma plain_complete:
  "validateCompleteTheme (JObj plain_theme) Dark
     = Inr \<lparr>isValid = True, errors = [], warnings = []\<rparr>"
  by (simp add: complete_defs plain_structure plain_colors)
     (simp add: plain_theme_def minimal_theme_def lower_plain_name)

lemma null_rule_structure:
  "validateThemeStructure theme_with_null_rule
     = Inr \<lparr>isValid = True, errors = [], warnings = []\<rparr>"
  by (simp add: theme_with_null_rule_def structure_defs)

lemma null_rule_colors: "validateThemeColors theme_with_null_rule = Inl TypeError"
  by (simp add: theme_with_null_rule_def colors_defs)

section \<open>The invariant of ThemeValidationResult\<close>

lemma structure_isValid:
  "validateThemeStructure t = Inr r \<Longrightarrow> isValid r = (errors r = [])"
  by (auto simp: validateThemeStructure_def bind_result_def Let_def
           split: if_splits sum.splits)

lemma structure_no_warnings:
  "validateThemeStructure t = Inr r \<Longrightarrow> warnings r = []"
  by (auto simp: validateThemeStructure_def bind_result_def Let_def
           split: if_splits sum.splits)

lemma colors_isValid:
  "validateThemeColors t = Inr r \<Longrightarrow> isValid r = (errors r = [])"
  by (auto simp: validateThemeColors_def bind_result_def split: if_splits sum.splits)

lemma colors_no_warnings: "validateThemeColors t = Inr r \<Longrightarrow> warnings r = []"
  by (auto simp: validateThemeColors_def bind_result_def split: if_splits sum.splits)

lemma complete_isValid:
  "validateCompleteTheme t v = Inr r \<Longrightarrow> isValid r = (errors r = [])"
  by (auto simp: validateCompleteTheme_def bind_result_def Let_def structure_isValid
           split: if_splits sum.splits)

lemma returned_isValid: "returned_by t v r \<Longrightarrow> isValid r = (errors r = [])"
  unfolding returned_by_def
  using structure_isValid colors_isValid complete_isValid by blast

text \<open>
  Claim C2. For every result that \<^verbatim>\<open>validateThemeStructure\<close>, \<^verbatim>\<open>validateThemeColors\<close> or
  \<^verbatim>\<open>validateCompleteTheme\<close> returns on any input, \<^verbatim>\<open>isValid\<close> is true if and only if
  \<^verbatim>\<open>errors\<close> is empty; the warnings never affect it: two returned results with the same
  errors have the same \<^verbatim>\<open>isValid\<close>, whatever their warnings.
\<close>

theorem isValid_iff_no_errors:
  assumes "returned_by theme v r" and "returned_by theme' v' r'"
  shows "(isValid r \<longleftrightarrow> errors r = [])
         \<and> (errors r = errors r' \<longrightarrow> isValid r = isValid r')"
  using returned_isValid[OF assms(1)] returned_isValid[OF assms(2)] by simp

theorem isValid_iff_no_errors_witness:
  "returned_by theme_with_numeric_name Dark
     \<lparr>isValid = True, errors = [], warnings = [msg_name_mismatch ''42'' ''dark'']\<rparr>
   \<and> returned_by (JObj plain_theme) Dark \<lparr>isValid = True, errors = [], warnings = []\<rparr>
   \<and> isValid \<lparr>isValid = True, errors = [], warnings = [msg_name_mismatch ''42'' ''dark'']\<rparr>
       = isValid \<lparr>isValid = True, errors = [], warnings = []\<rparr>"
proof -
  have a: "returned_by theme_with_numeric_name Dark
     \<lparr>isValid = True, errors = [], warnings = [msg_name_mismatch ''42'' ''dark'']\<rparr>"
    by (simp add: returned_by_def numeric_name_complete)
  have b: "returned_by (JObj plain_theme) Dark \<lparr>isValid = True, errors = [], warnings = []\<rparr>"
    by (simp add: returned_by_def plain_complete)
  show ?thesis using a b isValid_iff_no_errors[OF a b] by simp
qed

section \<open>The structural check\<close>

lemma check_required_append:
  "check_required props theme errs =
     errs @ map msg_missing (filter (\<lambda>prop. \<not> has_prop prop theme) props)"
  by (induction props arbitrary: errs) simp_all

lemma is_boolean_typeof: "is_boolean x = (typeof x = ''boolean'')"
  by (cases x) simp_all

lemma not_a_mapping_code:
  "not_a_mapping x = (typeof x \<noteq> ''object'' \<or> x = JNull \<or> isArray x)"
  by (auto simp: not_a_mapping_def)

text \<open>
  What \<^verbatim>\<open>validateThemeStructure\<close> returns: the single error for a root that is not a
  non-null object, and otherwise, whenever the text of the \<^verbatim>\<open>type\<close> value can be built,
  every defect of the document, none hiding another.
\<close>

lemma structure_reports:
  "(typeof theme \<noteq> ''object'' \<or> theme = JNull \<longrightarrow>
      validateThemeStructure theme
        = Inr \<lparr>isValid = False, errors = [msg_not_object], warnings = []\<rparr>)
   \<and> (typeof theme = ''object'' \<and> theme \<noteq> JNull
        \<and> js_toString (prop_of theme ''type'') = Inr got \<longrightarrow>
      validateThemeStructure theme
        = Inr \<lparr>isValid = (missing_errors theme @ malformed_errors theme got = []),
               errors = missing_errors theme @ malformed_errors theme got,
               warnings = []\<rparr>)"
proof (intro conjI impI)
  assume "typeof theme \<noteq> ''object'' \<or> theme = JNull"
  then show "validateThemeStructure theme
        = Inr \<lparr>isValid = False, errors = [msg_not_object], warnings = []\<rparr>"
    by (auto simp: validateThemeStructure_def)
next
  assume a: "typeof theme = ''object'' \<and> theme \<noteq> JNull
        \<and> js_toString (prop_of theme ''type'') = Inr got"
  have ty: "check_type theme errs =
      Inr (errs @ (if has_prop ''type'' theme \<and> prop_of theme ''type'' \<noteq> JStr ''dark''
                       \<and> prop_of theme ''type'' \<noteq> JStr ''light''
                   then [msg_invalid_type got] else []))" for errs
    using a by (simp add: check_type_def bind_result_def)
  show "validateThemeStructure theme
        = Inr \<lparr>isValid = (missing_errors theme @ malformed_errors theme got = []),
               errors = missing_errors theme @ malformed_errors theme got,
               warnings = []\<rparr>"
    using a
    by (simp add: validateThemeStructure_def check_required_append ty bind_result_def
          check_semanticHighlighting_def check_colors_def check_tokenColors_def
          check_semanticTokenColors_def missing_errors_def malformed_errors_def
          is_boolean_typeof not_a_mapping_code Let_def)
qed

text \<open>
  Claim C3 says that \<^verbatim>\<open>validateThemeStructure\<close> reports, for every input, each defect as
  one error. The error for an invalid \<^verbatim>\<open>type\<close> holds the text of the value, built by a
  template literal; for an object with an own property \<^verbatim>\<open>toString\<close> building that text
  raises a TypeError, and the function returns no result.
\<close>

theorem structure_raises_on_object_type:
  "validateThemeStructure theme_with_object_type = Inl TypeError"
  by (simp add: theme_with_object_type_def structure_defs)

theorem structure_raises_on_object_type_witness:
  "typeof theme_with_object_type = ''object'' \<and> theme_with_object_type \<noteq> JNull
   \<and> has_prop ''type'' theme_with_object_type
   \<and> js_toString (prop_of theme_with_object_type ''type'') = Inl TypeError
   \<and> (\<forall>r. validateThemeStructure theme_with_object_type \<noteq> Inr r)"
  using structure_raises_on_object_type
  by (simp add: theme_with_object_type_def)

section \<open>The color check\<close>

lemma text_of_string: "typeof v = ''string'' \<Longrightarrow> js_toString v = Inr (text_of v)"
  by (cases v) (simp_all add: text_of_def)

lemma check_color_entries_returns:
  "check_color_entries es errs = Inr out \<Longrightarrow> out = errs @ color_entry_errors es"
proof (induction es arbitrary: errs)
  case Nil
  then show ?case by (simp add: color_entry_errors_def)
next
  case (Cons e es)
  obtain key val where e: "e = (key, val)" by (cases e)
  show ?case
  proof (cases "isValidHexColor val")
    case True
    then show ?thesis using Cons e by (simp add: color_entry_errors_def)
  next
    case False
    with Cons.prems e obtain rendered where
      t: "js_toString val = Inr rendered"
      and rest: "check_color_entries es (errs @ [msg_color_format key rendered]) = Inr out"
      by (auto split: sum.splits)
    from Cons.IH[OF rest] t False e show ?thesis
      by (simp add: color_entry_errors_def text_of_def)
  qed
qed

lemma check_color_entries_typed:
  "list_all (\<lambda>(key, val). typeof val = ''string'') es \<Longrightarrow>
   check_color_entries es errs = Inr (errs @ color_entry_errors es)"
proof (induction es arbitrary: errs)
  case Nil
  then show ?case by (simp add: color_entry_errors_def)
next
  case (Cons e es)
  obtain key val where e: "e = (key, val)" by (cases e)
  with Cons.prems have s: "typeof val = ''string''"
    and rest: "list_all (\<lambda>(key, val). typeof val = ''string'') es"
    by simp_all
  show ?case
    using Cons.IH[OF rest] e text_of_string[OF s]
    by (simp add: color_entry_errors_def)
qed

lemma check_rule_returns:
  "check_rule rule index errs = Inr out \<Longrightarrow>
   out = errs @ (if rule_reported rule
                 then [msg_foreground_format (rule_label index rule)
                         (text_of (rule_foreground rule))]
                 else [])"
  by (auto simp: check_rule_def get_prop_def bind_result_def Let_def rule_reported_def
        rule_foreground_def rule_label_def text_of_def
      split: if_splits sum.splits)

lemma check_rules_returns:
  "check_rules rules index errs = Inr out \<Longrightarrow> out = errs @ rule_errors rules index"
proof (induction rules arbitrary: index errs)
  case Nil
  then show ?case by simp
next
  case (Cons rule rules)
  from Cons.prems obtain mid where
    one: "check_rule rule index errs = Inr mid"
    and rest: "check_rules rules (Suc index) mid = Inr out"
    by (auto split: sum.splits)
  from check_rule_returns[OF one] Cons.IH[OF rest] show ?case by simp
qed

lemma is_string_or_absent_text:
  "is_string_or_absent v \<Longrightarrow> js_toString v = Inr (text_of v)"
  by (cases v) (simp_all add: text_of_def)

lemma check_rule_typed:
  assumes "typed_rule rule"
  shows "check_rule rule index errs =
           Inr (errs @ (if rule_reported rule
                        then [msg_foreground_format (rule_label index rule)
                                (text_of (rule_foreground rule))]
                        else []))"
proof -
  from assms have obj: "\<not> nullish rule" and set: "\<not> nullish (prop_of rule ''settings'')"
    by (cases rule; cases "prop_of rule ''settings''";
        simp add: typed_rule_def nullish_def)+
  have nm: "js_toString (prop_of rule ''name'') = Inr (text_of (prop_of rule ''name''))"
    using assms by (simp add: typed_rule_def is_string_or_absent_text)
  have fg: "js_toString (rule_foreground rule) = Inr (text_of (rule_foreground rule))"
    using assms set
    by (simp add: typed_rule_def is_string_or_absent_text rule_foreground_def opt_prop_def)
  show ?thesis
    using obj nm fg
    by (simp add: check_rule_def get_prop_def bind_result_def Let_def rule_reported_def
          rule_label_def rule_foreground_def[symmetric])
qed

lemma check_rules_typed:
  "list_all typed_rule rules \<Longrightarrow>
   check_rules rules index errs = Inr (errs @ rule_errors rules index)"
proof (induction rules arbitrary: index errs)
  case Nil
  then show ?case by simp
next
  case (Cons rule rules)
  then have one: "typed_rule rule" and rest: "list_all typed_rule rules" by simp_all
  show ?case using check_rule_typed[OF one] Cons.IH[OF rest] by simp
qed

text \<open>
  What \<^verbatim>\<open>validateThemeColors\<close> returns on a value of type \<^verbatim>\<open>ThemeData\<close>: the errors of
  the entries of \<^verbatim>\<open>colors\<close>, then those of the rules, each violation on its own.
\<close>

lemma colors_reports_typed:
  assumes "typed_theme theme"
  shows "validateThemeColors theme =
           Inr \<lparr>isValid = (color_entry_errors (entries (prop_of theme ''colors''))
                            @ rule_errors (rules_of (prop_of theme ''tokenColors'')) 0 = []),
                errors = color_entry_errors (entries (prop_of theme ''colors''))
                            @ rule_errors (rules_of (prop_of theme ''tokenColors'')) 0,
                warnings = []\<rparr>"
proof -
  from assms have nn: "\<not> nullish theme"
    by (cases theme) (simp_all add: typed_theme_def nullish_def)
  from assms have tc: "truthy (prop_of theme ''colors'')"
    by (cases "prop_of theme ''colors''") (simp_all add: typed_theme_def)
  from assms obtain rules where arr: "prop_of theme ''tokenColors'' = JArr rules"
    by (cases "prop_of theme ''tokenColors''") (simp_all add: typed_theme_def)
  have es: "check_color_entries (entries (prop_of theme ''colors'')) []
              = Inr (color_entry_errors (entries (prop_of theme ''colors'')))"
    using assms check_color_entries_typed[of "entries (prop_of theme ''colors'')" "[]"]
    by (simp add: typed_theme_def)
  have rs: "check_rules rules 0 errs = Inr (errs @ rule_errors rules 0)" for errs
    using assms arr check_rules_typed[of rules 0 errs] by (simp add: typed_theme_def)
  show ?thesis
    using nn tc by (simp add: validateThemeColors_def get_prop_def bind_result_def es arr rs)
qed

text \<open>
  On any value at all, a result that \<^verbatim>\<open>validateThemeColors\<close> returns holds these errors.
\<close>

lemma colors_reports_returned:
  assumes "validateThemeColors theme = Inr r"
  shows "errors r =
           color_entry_errors (if truthy (prop_of theme ''colors'')
                               then entries (prop_of theme ''colors'') else [])
           @ rule_errors (rules_of (prop_of theme ''tokenColors'')) 0"
proof -
  from assms have nn: "\<not> nullish theme"
    by (auto simp: validateThemeColors_def get_prop_def bind_result_def split: if_splits)
  from assms nn obtain errs1 errs2 where
    c: "(if truthy (prop_of theme ''colors'')
         then check_color_entries (entries (prop_of theme ''colors'')) [] else Inr [])
        = Inr errs1"
    and t: "(if truthy (prop_of theme ''tokenColors'')
             then (case prop_of theme ''tokenColors'' of
                     JArr rules \<Rightarrow> check_rules rules 0 errs1 | _ \<Rightarrow> Inl TypeError)
             else Inr errs1) = Inr errs2"
    and r: "errors r = errs2"
    by (auto simp: validateThemeColors_def get_prop_def bind_result_def split: sum.splits)
  have e1: "errs1 = color_entry_errors (if truthy (prop_of theme ''colors'')
                               then entries (prop_of theme ''colors'') else [])"
    using c check_color_entries_returns[of "entries (prop_of theme ''colors'')" "[]" errs1]
    by (auto simp: color_entry_errors_def split: if_splits)
  have e2: "errs2 = errs1 @ rule_errors (rules_of (prop_of theme ''tokenColors'')) 0"
  proof (cases "prop_of theme ''tokenColors''")
    case (JArr rules)
    then show ?thesis using t check_rules_returns[of rules 0 errs1 errs2] by simp
  qed (use t in \<open>auto split: if_splits\<close>)
  show ?thesis using r e1 e2 by simp
qed

text \<open>
  Claim C5 says that every rule whose \<^verbatim>\<open>settings.foreground\<close> is present but not a valid
  hex color yields exactly one error. The guard of the rule loop is the truthiness of the
  foreground, so a foreground that is the empty string, present and not a hex color, is
  passed over, while the loop over \<^verbatim>\<open>colors\<close> reports the empty string.
\<close>

theorem empty_foreground_not_reported:
  "typed_theme theme_with_empty_foreground
   \<and> \<not> isValidHexColor (JStr [])
   \<and> validateThemeColors theme_with_empty_foreground
       = Inr \<lparr>isValid = True, errors = [], warnings = []\<rparr>
   \<and> validateThemeColors theme_with_empty_color
       = Inr \<lparr>isValid = False, errors = [msg_color_format ''editor.background'' []],
              warnings = []\<rparr>"
proof (intro conjI)
  show "typed_theme theme_with_empty_foreground"
    by (simp add: typed_theme_def typed_rule_def theme_with_empty_foreground_def
          minimal_theme_def)
  show "\<not> isValidHexColor (JStr [])" by (rule isValidHexColor_empty)
  show "validateThemeColors theme_with_empty_foreground
       = Inr \<lparr>isValid = True, errors = [], warnings = []\<rparr>"
    by (simp add: theme_with_empty_foreground_def colors_defs)
  show "validateThemeColors theme_with_empty_color
       = Inr \<lparr>isValid = False, errors = [msg_color_format ''editor.background'' []],
              warnings = []\<rparr>"
    by (simp add: theme_with_empty_color_def colors_defs)
qed

theorem empty_foreground_not_reported_witness:
  "rule_foreground (JObj [(''name'', JStr ''Comment''), (''scope'', JStr ''comment''),
                          (''settings'', JObj [(''foreground'', JStr [])])]) = JStr []
   \<and> validateThemeColors theme_with_empty_foreground
       \<noteq> Inr \<lparr>isValid = False, errors = [msg_foreground_format ''Comment'' []],
               warnings = []\<rparr>"
  using empty_foreground_not_reported
  by (simp add: rule_foreground_def opt_prop_def nullish_def)

section \<open>A name that is not a string\<close>

lemma is_mapping_typeof:
  "is_mapping x \<Longrightarrow> typeof x = ''object'' \<and> x \<noteq> JNull \<and> \<not> isArray x"
  by (cases x) simp_all

lemma well_formed_is_object: "well_formed_but_name doc \<Longrightarrow> \<exists>kvs. doc = JObj kvs"
  by (cases doc) (simp_all add: well_formed_but_name_def REQUIRED_THEME_PROPERTIES_def)

lemma well_formed_structure:
  assumes "well_formed_but_name doc"
  shows "validateThemeStructure doc = Inr \<lparr>isValid = True, errors = [], warnings = []\<rparr>"
proof -
  from assms obtain kvs where doc: "doc = JObj kvs"
    using well_formed_is_object by blast
  have h: "has_prop ''name'' doc" "has_prop ''type'' doc"
      "has_prop ''semanticHighlighting'' doc" "has_prop ''semanticTokenColors'' doc"
      "has_prop ''colors'' doc" "has_prop ''tokenColors'' doc"
    using assms by (simp_all add: well_formed_but_name_def REQUIRED_THEME_PROPERTIES_def)
  have req: "check_required REQUIRED_THEME_PROPERTIES doc [] = []"
    by (simp add: REQUIRED_THEME_PROPERTIES_def h)
  have ty: "check_type doc [] = Inr []"
    using assms by (auto simp add: check_type_def well_formed_but_name_def)
  have sh: "check_semanticHighlighting doc [] = []"
    using assms by (simp add: check_semanticHighlighting_def well_formed_but_name_def)
  have co: "check_colors doc [] = []"
    using assms is_mapping_typeof[of "prop_of doc ''colors''"]
    by (simp add: check_colors_def well_formed_but_name_def)
  have tc: "check_tokenColors doc [] = []"
    using assms by (simp add: check_tokenColors_def well_formed_but_name_def)
  have st: "check_semanticTokenColors doc [] = []"
    using assms is_mapping_typeof[of "prop_of doc ''semanticTokenColors''"]
    by (simp add: check_semanticTokenColors_def well_formed_but_name_def)
  have "typeof doc = ''object''" "doc \<noteq> JNull" using doc by simp_all
  then show ?thesis
    by (simp add: validateThemeStructure_def req ty sh co tc st bind_result_def)
qed

lemma nonstring_name_fails:
  assumes "\<not> nullish doc" "typeof (prop_of doc ''name'') \<noteq> ''string''"
  shows "validateThemeName doc v = Inr False"
  using assms
  by (cases "prop_of doc ''name''")
     (simp_all add: validateThemeName_def get_prop_def bind_result_def)

lemma type_error_step:
  assumes "prop_of doc ''type'' = JStr ''dark'' \<or> prop_of doc ''type'' = JStr ''light''"
  shows "(if prop_of doc ''type'' \<noteq> JStr (variant_word v)
          then bind_result (js_toString (prop_of doc ''type''))
                 (\<lambda>ty. Inr (es @ [msg_type_mismatch ty (variant_word v)]))
          else Inr es) = Inr (es @ type_mismatch_errors doc v)"
  using assms by (cases v) (auto simp: bind_result_def type_mismatch_errors_def)

lemma complete_nonstring_name:
  assumes wf: "well_formed_but_name doc"
    and nm: "typeof (prop_of doc ''name'') \<noteq> ''string''"
  shows "validateCompleteTheme doc v =
           bind_result (validateThemeColors doc)
             (\<lambda>colorResult.
                bind_result (js_toString (prop_of doc ''name''))
                  (\<lambda>nameText.
                     Inr \<lparr>isValid = (errors colorResult @ type_mismatch_errors doc v = []),
                          errors = errors colorResult @ type_mismatch_errors doc v,
                          warnings = [msg_name_mismatch nameText (variant_word v)]\<rparr>))"
proof -
  from wf obtain kvs where doc: "doc = JObj kvs"
    using well_formed_is_object by blast
  then have nn: "\<not> nullish doc" by (simp add: nullish_def)
  have ty: "prop_of doc ''type'' = JStr ''dark'' \<or> prop_of doc ''type'' = JStr ''light''"
    using wf by (simp add: well_formed_but_name_def)
  have "validateCompleteTheme doc v =
          bind_result (validateThemeColors doc)
            (\<lambda>colorResult.
               bind_result (js_toString (prop_of doc ''name''))
                 (\<lambda>nameText.
                    Inr \<lparr>isValid = (errors colorResult @ type_mismatch_errors doc v = []),
                         errors = errors colorResult @ type_mismatch_errors doc v,
                         warnings = warnings colorResult
                            @ [msg_name_mismatch nameText (variant_word v)]\<rparr>))"
    unfolding validateCompleteTheme_def well_formed_structure[OF wf]
      nonstring_name_fails[OF nn nm] type_error_step[OF ty]
    by (simp add: bind_result_def Let_def split: sum.splits)
  also have "\<dots> = bind_result (validateThemeColors doc)
             (\<lambda>colorResult.
                bind_result (js_toString (prop_of doc ''name''))
                  (\<lambda>nameText.
                     Inr \<lparr>isValid = (errors colorResult @ type_mismatch_errors doc v = []),
                          errors = errors colorResult @ type_mismatch_errors doc v,
                          warnings = [msg_name_mismatch nameText (variant_word v)]\<rparr>))"
    by (cases "validateThemeColors doc")
       (simp_all add: bind_result_def colors_no_warnings split: sum.splits)
  finally show ?thesis .
qed

text \<open>
  What the validators return for a document that has the six required properties, all
  well-formed, and a \<^verbatim>\<open>name\<close> that is not a string: the structural check returns
  \<^verbatim>\<open>isValid\<close> true; a result of \<^verbatim>\<open>validateCompleteTheme\<close> carries for the name one
  name-mismatch warning and no error; and whenever the color check returns and the text of
  the name can be built, the document is valid as soon as its colors are and its type is
  the expected one.
\<close>

lemma nonstring_name_only_warns:
  assumes "well_formed_but_name doc" and "typeof (prop_of doc ''name'') \<noteq> ''string''"
  shows "validateThemeStructure doc = Inr \<lparr>isValid = True, errors = [], warnings = []\<rparr>
    \<and> (validateCompleteTheme doc v = Inr r \<longrightarrow>
         (\<exists>colorResult nameText.
            validateThemeColors doc = Inr colorResult
            \<and> js_toString (prop_of doc ''name'') = Inr nameText
            \<and> warnings r = [msg_name_mismatch nameText (variant_word v)]
            \<and> errors r = errors colorResult @ type_mismatch_errors doc v))
    \<and> (validateThemeColors doc = Inr colorResult
         \<and> js_toString (prop_of doc ''name'') = Inr nameText \<longrightarrow>
         validateCompleteTheme doc v =
           Inr \<lparr>isValid = (errors colorResult = [] \<and> type_mismatch_errors doc v = []),
                errors = errors colorResult @ type_mismatch_errors doc v,
                warnings = [msg_name_mismatch nameText (variant_word v)]\<rparr>)"
proof (intro conjI impI)
  show "validateThemeStructure doc = Inr \<lparr>isValid = True, errors = [], warnings = []\<rparr>"
    by (rule well_formed_structure[OF assms(1)])
next
  assume ret: "validateCompleteTheme doc v = Inr r"
  show "\<exists>colorResult nameText.
            validateThemeColors doc = Inr colorResult
            \<and> js_toString (prop_of doc ''name'') = Inr nameText
            \<and> warnings r = [msg_name_mismatch nameText (variant_word v)]
            \<and> errors r = errors colorResult @ type_mismatch_errors doc v"
    using ret unfolding complete_nonstring_name[OF assms]
    by (auto simp: bind_result_def split: sum.splits)
next
  assume "validateThemeColors doc = Inr colorResult
            \<and> js_toString (prop_of doc ''name'') = Inr nameText"
  then show "validateCompleteTheme doc v =
           Inr \<lparr>isValid = (errors colorResult = [] \<and> type_mismatch_errors doc v = []),
                errors = errors colorResult @ type_mismatch_errors doc v,
                warnings = [msg_name_mismatch nameText (variant_word v)]\<rparr>"
    unfolding complete_nonstring_name[OF assms] by (simp add: bind_result_def)
qed

lemma nonstring_name_numeric:
  "well_formed_but_name theme_with_numeric_name
   \<and> typeof (prop_of theme_with_numeric_name ''name'') \<noteq> ''string''
   \<and> validateThemeStructure theme_with_numeric_name
       = Inr \<lparr>isValid = True, errors = [], warnings = []\<rparr>
   \<and> validateCompleteTheme theme_with_numeric_name Dark
       = Inr \<lparr>isValid = True, errors = [], warnings = [msg_name_mismatch ''42'' ''dark'']\<rparr>"
proof -
  have wf: "well_formed_but_name theme_with_numeric_name"
    by (simp add: well_formed_but_name_def theme_with_numeric_name_def minimal_theme_def
          REQUIRED_THEME_PROPERTIES_def)
  have nm: "typeof (prop_of theme_with_numeric_name ''name'') \<noteq> ''string''"
    by (simp add: theme_with_numeric_name_def minimal_theme_def)
  have tx: "js_toString (prop_of theme_with_numeric_name ''name'') = Inr ''42''"
    by (simp add: theme_with_numeric_name_def minimal_theme_def)
  have tm: "type_mismatch_errors theme_with_numeric_name Dark = []"
    by (simp add: type_mismatch_errors_def theme_with_numeric_name_def minimal_theme_def)
  show ?thesis
    using wf nm
      nonstring_name_only_warns[OF wf nm, of Dark _
        "\<lparr>isValid = True, errors = [], warnings = []\<rparr>" "''42''"]
    by (simp add: numeric_name_colors tx tm)
qed

text \<open>
  Claim C10 says that every well-formed document whose \<^verbatim>\<open>name\<close> is present and not a
  string passes the structural check and gets from \<^verbatim>\<open>validateCompleteTheme\<close> at most a
  name-mismatch warning, so that it can still be valid. The warning holds the text of the
  name, built by a template literal; for a name that is an object with an own property
  \<^verbatim>\<open>toString\<close> building that text raises a TypeError: the structural check and the color
  check pass, and \<^verbatim>\<open>validateCompleteTheme\<close> returns no result.
\<close>

theorem complete_raises_on_object_name:
  "well_formed_but_name theme_with_object_name
   \<and> typeof (prop_of theme_with_object_name ''name'') \<noteq> ''string''
   \<and> validateThemeStructure theme_with_object_name
       = Inr \<lparr>isValid = True, errors = [], warnings = []\<rparr>
   \<and> validateThemeColors theme_with_object_name
       = Inr \<lparr>isValid = True, errors = [], warnings = []\<rparr>
   \<and> validateThemeName theme_with_object_name Dark = Inr False
   \<and> validateCompleteTheme theme_with_object_name Dark = Inl TypeError"
proof -
  have wf: "well_formed_but_name theme_with_object_name"
    by (simp add: well_formed_but_name_def theme_with_object_name_def minimal_theme_def
          REQUIRED_THEME_PROPERTIES_def)
  have nm: "typeof (prop_of theme_with_object_name ''name'') \<noteq> ''string''"
    by (simp add: theme_with_object_name_def minimal_theme_def)
  have nn: "\<not> nullish theme_with_object_name"
    by (simp add: theme_with_object_name_def nullish_def)
  have co: "validateThemeColors theme_with_object_name
       = Inr \<lparr>isValid = True, errors = [], warnings = []\<rparr>"
    by (simp add: theme_with_object_name_def colors_defs)
  have tx: "js_toString (prop_of theme_with_object_name ''name'') = Inl TypeError"
    by (simp add: theme_with_object_name_def minimal_theme_def)
  have "validateCompleteTheme theme_with_object_name Dark = Inl TypeError"
    unfolding complete_nonstring_name[OF wf nm] co tx by (simp add: bind_result_def)
  then show ?thesis
    using wf nm co well_formed_structure[OF wf] nonstring_name_fails[OF nn nm] by simp
qed

theorem complete_raises_on_object_name_witness:
  "typeof theme_with_object_name = ''object'' \<and> theme_with_object_name \<noteq> JNull
   \<and> has_prop ''name'' theme_with_object_name
   \<and> js_toString (prop_of theme_with_object_name ''name'') = Inl TypeError
   \<and> (\<forall>r. validateCompleteTheme theme_with_object_name Dark \<noteq> Inr r)"
  using complete_raises_on_object_name
  by (simp add: theme_with_object_name_def minimal_theme_def)

section \<open>The complete check\<close>

lemma check_semanticHighlighting_nil: "check_semanticHighlighting t e = [] \<Longrightarrow> e = []"
  by (auto simp: check_semanticHighlighting_def split: if_splits)

lemma check_colors_nil: "check_colors t e = [] \<Longrightarrow> e = []"
  by (auto simp: check_colors_def split: if_splits)

lemma check_tokenColors_nil: "check_tokenColors t e = [] \<Longrightarrow> e = []"
  by (auto simp: check_tokenColors_def split: if_splits)

lemma check_semanticTokenColors_nil: "check_semanticTokenColors t e = [] \<Longrightarrow> e = []"
  by (auto simp: check_semanticTokenColors_def split: if_splits)

lemma check_type_nil:
  "check_type t e = Inr [] \<Longrightarrow>
   e = [] \<and> (has_prop ''type'' t \<longrightarrow>
               prop_of t ''type'' = JStr ''dark'' \<or> prop_of t ''type'' = JStr ''light'')"
  by (auto simp: check_type_def bind_result_def split: if_splits sum.splits)

lemma check_required_nil:
  "check_required REQUIRED_THEME_PROPERTIES t [] = [] \<Longrightarrow> has_prop ''type'' t"
  by (auto simp: check_required_append REQUIRED_THEME_PROPERTIES_def split: if_splits)

text \<open>A document that passes the structural check is an object whose type is a variant.\<close>

lemma structure_valid_shape:
  assumes "validateThemeStructure t = Inr sr" and "isValid sr"
  shows "\<not> nullish t
         \<and> (prop_of t ''type'' = JStr ''dark'' \<or> prop_of t ''type'' = JStr ''light'')"
proof -
  from assms have obj: "typeof t = ''object''" "t \<noteq> JNull"
    by (auto simp: validateThemeStructure_def split: if_splits)
  then have nn: "\<not> nullish t" by (auto simp: nullish_def)
  from assms obj obtain errs1 where
    c1: "check_type t (check_required REQUIRED_THEME_PROPERTIES t []) = Inr errs1"
    and c5: "check_semanticTokenColors t (check_tokenColors t (check_colors t
               (check_semanticHighlighting t errs1))) = []"
    by (auto simp: validateThemeStructure_def bind_result_def Let_def split: sum.splits)
  have "errs1 = []"
    using c5 check_semanticTokenColors_nil check_tokenColors_nil check_colors_nil
      check_semanticHighlighting_nil by blast
  with c1 have "check_required REQUIRED_THEME_PROPERTIES t [] = []"
    and ty: "has_prop ''type'' t \<longrightarrow>
               prop_of t ''type'' = JStr ''dark'' \<or> prop_of t ''type'' = JStr ''light''"
    using check_type_nil by blast+
  then have "has_prop ''type'' t" using check_required_nil by blast
  with ty nn show ?thesis by blast
qed

lemma validateThemeName_spec:
  assumes "\<not> nullish t"
  shows "validateThemeName t v = Inr (name_contains_variant t v)"
proof (cases "prop_of t ''name''")
  case (JStr s)
  then show ?thesis
    using assms
    by (cases v; cases s)
       (simp_all add: validateThemeName_def get_prop_def bind_result_def
          name_contains_variant_def toLowerCase_def)
qed (use assms in \<open>simp_all add: validateThemeName_def get_prop_def bind_result_def
        name_contains_variant_def\<close>)

text \<open>
  What \<^verbatim>\<open>validateCompleteTheme\<close> returns. A failed structural check ends it with the
  structural errors alone. After a passed one, whenever the color check returns and the text
  of the name can be built: the errors of the color check, then the error of a type that is
  not the expected variant; as only warning the one of a name that does not contain the
  variant word.
\<close>

lemma complete_gates:
  "(validateThemeStructure t = Inr sr \<and> \<not> isValid sr \<longrightarrow>
      validateCompleteTheme t v
        = Inr \<lparr>isValid = False, errors = errors sr, warnings = []\<rparr>)
   \<and> (validateThemeStructure t = Inr sr \<and> isValid sr
        \<and> validateThemeColors t = Inr cr
        \<and> js_toString (prop_of t ''name'') = Inr nameText \<longrightarrow>
      validateCompleteTheme t v
        = Inr \<lparr>isValid = (errors cr @ type_mismatch_errors t v = []),
               errors = errors cr @ type_mismatch_errors t v,
               warnings = name_warnings t v nameText\<rparr>)"
proof (intro conjI impI)
  assume "validateThemeStructure t = Inr sr \<and> \<not> isValid sr"
  then have st: "validateThemeStructure t = Inr sr" and bad: "\<not> isValid sr"
    by simp_all
  show "validateCompleteTheme t v
        = Inr \<lparr>isValid = False, errors = errors sr, warnings = []\<rparr>"
    using bad
    by (simp add: validateCompleteTheme_def st bind_result_def structure_no_warnings[OF st])
next
  assume a: "validateThemeStructure t = Inr sr \<and> isValid sr
        \<and> validateThemeColors t = Inr cr
        \<and> js_toString (prop_of t ''name'') = Inr nameText"
  then have st: "validateThemeStructure t = Inr sr" and ok: "isValid sr"
    and co: "validateThemeColors t = Inr cr"
    and tx: "js_toString (prop_of t ''name'') = Inr nameText"
    by simp_all
  from structure_valid_shape[OF st ok] have nn: "\<not> nullish t"
    and ty: "prop_of t ''type'' = JStr ''dark'' \<or> prop_of t ''type'' = JStr ''light''"
    by simp_all
  have se: "errors sr = []" using structure_isValid[OF st] ok by simp
  have sw: "warnings sr = []" by (rule structure_no_warnings[OF st])
  have cw: "warnings cr = []" by (rule colors_no_warnings[OF co])
  show "validateCompleteTheme t v
        = Inr \<lparr>isValid = (errors cr @ type_mismatch_errors t v = []),
               errors = errors cr @ type_mismatch_errors t v,
               warnings = name_warnings t v nameText\<rparr>"
    unfolding validateCompleteTheme_def st co validateThemeName_spec[OF nn] tx
      type_error_step[OF ty]
    using ok by (simp add: bind_result_def Let_def se sw cw name_warnings_def)
qed

text \<open>
  Claim C1 says that, for every input document, \<^verbatim>\<open>validateCompleteTheme\<close> returns the
  structural errors when the structural check fails and otherwise runs the color check and
  appends the name warning and the type error. The structural check asks of
  \<^verbatim>\<open>tokenColors\<close> only that it is an array; on an element that is \<^verbatim>\<open>null\<close> the color check
  reads \<^verbatim>\<open>rule.settings\<close>, a TypeError, and \<^verbatim>\<open>validateCompleteTheme\<close> returns no result:
  neither the warning for the name nor the error for the type is appended.
\<close>

theorem complete_raises_on_null_rule:
  "validateThemeStructure theme_with_null_rule
     = Inr \<lparr>isValid = True, errors = [], warnings = []\<rparr>
   \<and> \<not> name_contains_variant theme_with_null_rule Dark
   \<and> type_mismatch_errors theme_with_null_rule Dark \<noteq> []
   \<and> validateCompleteTheme theme_with_null_rule Dark = Inl TypeError"
proof (intro conjI)
  show "validateThemeStructure theme_with_null_rule
     = Inr \<lparr>isValid = True, errors = [], warnings = []\<rparr>"
    by (rule null_rule_structure)
  have "toLowerCase ''Gruvbox Material'' = ''gruvbox material''"
    by code_simp
  then show "\<not> name_contains_variant theme_with_null_rule Dark"
    by (simp add: name_contains_variant_def theme_with_null_rule_def minimal_theme_def)
  show "type_mismatch_errors theme_with_null_rule Dark \<noteq> []"
    by (simp add: type_mismatch_errors_def theme_with_null_rule_def minimal_theme_def)
  show "validateCompleteTheme theme_with_null_rule Dark = Inl TypeError"
    by (simp add: validateCompleteTheme_def bind_result_def null_rule_structure
          null_rule_colors)
qed

theorem complete_raises_on_null_rule_witness:
  "typeof theme_with_null_rule = ''object'' \<and> theme_with_null_rule \<noteq> JNull
   \<and> prop_of theme_with_null_rule ''tokenColors'' = JArr [JNull]
   \<and> (\<forall>r. validateCompleteTheme theme_with_null_rule Dark \<noteq> Inr r)"
  using complete_raises_on_null_rule
  by (simp add: theme_with_null_rule_def minimal_theme_def)

section \<open>Extra top-level fields\<close>

lemma has_prop_map_of: "has_prop k (JObj kvs) = (map_of kvs k \<noteq> None)"
  by (simp add: map_of_eq_None_iff)

lemma agree_has_prop:
  "map_of kvs1 k = map_of kvs2 k \<Longrightarrow> has_prop k (JObj kvs1) = has_prop k (JObj kvs2)"
  by (simp only: has_prop_map_of)

lemma agree_prop_of:
  "map_of kvs1 k = map_of kvs2 k \<Longrightarrow> prop_of (JObj kvs1) k = prop_of (JObj kvs2) k"
  by simp

lemma structure_depends_on_required:
  assumes "\<forall>k \<in> set REQUIRED_THEME_PROPERTIES. map_of kvs1 k = map_of kvs2 k"
  shows "validateThemeStructure (JObj kvs1) = validateThemeStructure (JObj kvs2)"
proof -
  have m: "map_of kvs1 ''name'' = map_of kvs2 ''name''"
      "map_of kvs1 ''type'' = map_of kvs2 ''type''"
      "map_of kvs1 ''semanticHighlighting'' = map_of kvs2 ''semanticHighlighting''"
      "map_of kvs1 ''semanticTokenColors'' = map_of kvs2 ''semanticTokenColors''"
      "map_of kvs1 ''colors'' = map_of kvs2 ''colors''"
      "map_of kvs1 ''tokenColors'' = map_of kvs2 ''tokenColors''"
    using assms by (simp_all add: REQUIRED_THEME_PROPERTIES_def)
  note h = m[THEN agree_has_prop] and p = m[THEN agree_prop_of]
  have req: "check_required REQUIRED_THEME_PROPERTIES (JObj kvs1) []
           = check_required REQUIRED_THEME_PROPERTIES (JObj kvs2) []"
    by (simp add: REQUIRED_THEME_PROPERTIES_def h del: has_prop.simps)
  have ty: "check_type (JObj kvs1) e = check_type (JObj kvs2) e" for e
    by (simp add: check_type_def h p del: has_prop.simps prop_of.simps)
  have sh: "check_semanticHighlighting (JObj kvs1) e = check_semanticHighlighting (JObj kvs2) e"
    for e
    by (simp add: check_semanticHighlighting_def h p del: has_prop.simps prop_of.simps)
  have co: "check_colors (JObj kvs1) e = check_colors (JObj kvs2) e" for e
    by (simp add: check_colors_def h p del: has_prop.simps prop_of.simps)
  have tc: "check_tokenColors (JObj kvs1) e = check_tokenColors (JObj kvs2) e" for e
    by (simp add: check_tokenColors_def h p del: has_prop.simps prop_of.simps)
  have st: "check_semanticTokenColors (JObj kvs1) e = check_semanticTokenColors (JObj kvs2) e"
    for e
    by (simp add: check_semanticTokenColors_def h p del: has_prop.simps prop_of.simps)
  show ?thesis
    by (simp add: validateThemeStructure_def req ty sh co tc st)
qed

lemma complete_depends_on_required:
  assumes "\<forall>k \<in> set REQUIRED_THEME_PROPERTIES. map_of kvs1 k = map_of kvs2 k"
  shows "validateCompleteTheme (JObj kvs1) v = validateCompleteTheme (JObj kvs2) v"
proof -
  have m: "map_of kvs1 ''name'' = map_of kvs2 ''name''"
      "map_of kvs1 ''type'' = map_of kvs2 ''type''"
      "map_of kvs1 ''colors'' = map_of kvs2 ''colors''"
      "map_of kvs1 ''tokenColors'' = map_of kvs2 ''tokenColors''"
    using assms by (simp_all add: REQUIRED_THEME_PROPERTIES_def)
  note p = m[THEN agree_prop_of]
  have col: "validateThemeColors (JObj kvs1) = validateThemeColors (JObj kvs2)"
    by (simp add: validateThemeColors_def get_prop_def nullish_def p del: prop_of.simps)
  have nm: "validateThemeName (JObj kvs1) v = validateThemeName (JObj kvs2) v"
    by (simp add: validateThemeName_def get_prop_def nullish_def p del: prop_of.simps)
  show ?thesis
    unfolding validateCompleteTheme_def structure_depends_on_required[OF assms] col nm p
    by (rule refl)
qed

text \<open>
  Claim C8. Two theme documents that agree on the six required top-level properties, and
  differ in other top-level fields only, get identical outcomes from
  \<^verbatim>\<open>validateThemeStructure\<close> and from \<^verbatim>\<open>validateCompleteTheme\<close>: an extra field never
  produces an error or a warning and never changes \<^verbatim>\<open>isValid\<close>.
\<close>

theorem extra_fields_tolerated:
  assumes "\<forall>k \<in> set REQUIRED_THEME_PROPERTIES. map_of kvs1 k = map_of kvs2 k"
  shows "validateThemeStructure (JObj kvs1) = validateThemeStructure (JObj kvs2)
         \<and> validateCompleteTheme (JObj kvs1) v = validateCompleteTheme (JObj kvs2) v"
  using structure_depends_on_required[OF assms] complete_depends_on_required[OF assms]
  by simp

theorem extra_fields_tolerated_witness:
  "list_all (\<lambda>k. map_of theme_with_extra_field k = map_of plain_theme k)
     REQUIRED_THEME_PROPERTIES
   \<and> map_of theme_with_extra_field ''$schema'' \<noteq> map_of plain_theme ''$schema''
   \<and> validateThemeStructure (JObj theme_with_extra_field)
       = Inr \<lparr>isValid = True, errors = [], warnings = []\<rparr>
   \<and> validateCompleteTheme (JObj theme_with_extra_field) Dark
       = Inr \<lparr>isValid = True, errors = [], warnings = []\<rparr>"
proof -
  have agree: "\<forall>k \<in> set REQUIRED_THEME_PROPERTIES.
      map_of theme_with_extra_field k = map_of plain_theme k"
    by (simp add: REQUIRED_THEME_PROPERTIES_def theme_with_extra_field_def)
  have differ: "map_of theme_with_extra_field ''$schema'' \<noteq> map_of plain_theme ''$schema''"
    by (simp add: theme_with_extra_field_def plain_theme_def minimal_theme_def)
  show ?thesis
    using agree differ extra_fields_tolerated[OF agree, of Dark]
    by (simp add: plain_structure plain_complete list_all_iff)
qed

section \<open>createConfiguration\<close>

lemma defaults_documented: "CONFIGURATION_DEFAULTS k = documented_default k"
  unfolding CONFIGURATION_DEFAULTS_def documented_default_def by simp

text \<open>
  Claim C6. For every partial configuration of overrides, \<^verbatim>\<open>createConfiguration\<close> gives
  each field absent from the overrides exactly its documented default, so that leaving a
  field out is the same as setting it to its default; with no overrides the result is
  \<^verbatim>\<open>CONFIGURATION_DEFAULTS\<close>.
\<close>

theorem createConfiguration_defaults:
  "(k \<notin> dom overrides \<longrightarrow> createConfiguration (Some overrides) k = documented_default k)
   \<and> (k \<notin> dom overrides \<longrightarrow> documented_default k = Some d \<longrightarrow>
        createConfiguration (Some (overrides(k \<mapsto> d))) = createConfiguration (Some overrides))
   \<and> createConfiguration None = CONFIGURATION_DEFAULTS
   \<and> createConfiguration (Some Map.empty) = CONFIGURATION_DEFAULTS"
proof (intro conjI impI)
  assume "k \<notin> dom overrides"
  then show "createConfiguration (Some overrides) k = documented_default k"
    by (simp add: createConfiguration_def spread_def map_add_dom_app_simps defaults_documented)
next
  assume absent: "k \<notin> dom overrides" and dflt: "documented_default k = Some d"
  show "createConfiguration (Some (overrides(k \<mapsto> d))) = createConfiguration (Some overrides)"
  proof
    fix x
    show "createConfiguration (Some (overrides(k \<mapsto> d))) x
            = createConfiguration (Some overrides) x"
      using absent dflt
      by (cases "x = k")
         (simp_all add: createConfiguration_def spread_def map_add_def defaults_documented
            domIff split: option.splits)
  qed
next
  show "createConfiguration None = CONFIGURATION_DEFAULTS"
    by (simp add: createConfiguration_def spread_def)
next
  show "createConfiguration (Some Map.empty) = CONFIGURATION_DEFAULTS"
    by (simp add: createConfiguration_def spread_def)
qed

theorem createConfiguration_defaults_witness:
  "''italicComments'' \<notin> dom [''darkContrast'' \<mapsto> JStr ''hard'']
   \<and> createConfiguration (Some [''darkContrast'' \<mapsto> JStr ''hard'']) ''italicComments''
       = Some (JBool True)
   \<and> createConfiguration
        (Some [''darkContrast'' \<mapsto> JStr ''hard'', ''italicComments'' \<mapsto> JBool True])
       = createConfiguration (Some [''darkContrast'' \<mapsto> JStr ''hard''])"
  using createConfiguration_defaults
          [of "''italicComments''" "[''darkContrast'' \<mapsto> JStr ''hard'']" "JBool True"]
  by (simp add: documented_default_def)

section \<open>The counting utilities\<close>

text \<open>
  Claim C9 says that the two counting utilities never throw, for every input. Both read a
  property of \<^verbatim>\<open>theme\<close> first, which raises a TypeError when \<^verbatim>\<open>theme\<close> is \<^verbatim>\<open>null\<close>.
\<close>

theorem count_null_theme_counterexample:
  "countWorkbenchColors JNull = Inl TypeError \<and> countTokenColorRules JNull = Inl TypeError"
  by (simp add: countWorkbenchColors_def countTokenColorRules_def get_prop_def bind_result_def
        nullish_def)

text \<open>
  Claim C9, amended. For every input that is neither \<^verbatim>\<open>null\<close> nor \<^verbatim>\<open>undefined\<close> (the
  parameter type \<^verbatim>\<open>ThemeData\<close> excludes both), the two counting utilities return:
  \<^verbatim>\<open>countWorkbenchColors\<close> gives 0 when \<^verbatim>\<open>colors\<close> is missing, \<^verbatim>\<open>null\<close> or not an object,
  and otherwise the number of keys of \<^verbatim>\<open>colors\<close>; \<^verbatim>\<open>countTokenColorRules\<close> gives 0 when
  \<^verbatim>\<open>tokenColors\<close> is missing or not an array, and otherwise its length.
\<close>

theorem counting_total_on_objects:
  assumes "\<not> nullish theme"
  shows "countWorkbenchColors theme = Inr (count_colors_spec theme)
         \<and> countTokenColorRules theme = Inr (count_rules_spec theme)"
proof
  show "countWorkbenchColors theme = Inr (count_colors_spec theme)"
    using assms
    by (cases "prop_of theme ''colors''")
       (simp_all add: countWorkbenchColors_def count_colors_spec_def get_prop_def
          bind_result_def)
  show "countTokenColorRules theme = Inr (count_rules_spec theme)"
    using assms
    by (cases "prop_of theme ''tokenColors''")
       (simp_all add: countTokenColorRules_def count_rules_spec_def get_prop_def
          bind_result_def)
qed

theorem counting_total_on_objects_witness:
  "\<not> nullish (JObj plain_theme)
   \<and> countWorkbenchColors (JObj plain_theme) = Inr 1
   \<and> countTokenColorRules (JObj plain_theme) = Inr 1
   \<and> \<not> nullish (JObj [(''colors'', JStr ''red'')])
   \<and> countWorkbenchColors (JObj [(''colors'', JStr ''red'')]) = Inr 0
   \<and> countTokenColorRules (JObj [(''colors'', JStr ''red'')]) = Inr 0"
  using counting_total_on_objects[of "JObj plain_theme"]
    counting_total_on_objects[of "JObj [(''colors'', JStr ''red'')]"]
  by (simp add: nullish_def count_colors_spec_def count_rules_spec_def keys_def plain_theme_def
        minimal_theme_def)

end
